theory Spec2Isabelle
  imports Complex_Main "HOL-Library.Log_Nat"
begin

section \<open>Python numerics\<close>

text \<open>
  The toolkit computes on Python floats. They are modelled at two levels.

  The first level takes a float for the real number it denotes: the comparisons, the
  rounding calls and the divisions of the source are kept as they are written, the
  binary rounding error of each operation is not modelled, and neither are the special
  values inf and nan. This level decides which inputs raise and which return, the
  branches a result takes where they do not hang on the last bit of a float, and the
  structure of the loops. Its values agree with the floats of the program where no
  operand lies within a rounding error of a comparison or of a tie of a rounding.

  The second level, in the section on binary floats below, models the IEEE 754 double
  itself, with the rounding of every operation; \<open>calculate_sec_float\<close> is
  \<^verbatim>\<open>calculate_sec\<close> at that level, for what the function computes bit for bit.

  A Python float division \<^verbatim>\<open>a / b\<close> raises ZeroDivisionError when \<^verbatim>\<open>b\<close> is zero; no
  other arithmetic operation of the source raises. ValueError is what numpy raises on
  an argument out of range.
\<close>

datatype error = ZeroDivisionError | ValueError

definition py_truediv :: "real \<Rightarrow> real \<Rightarrow> error + real" where
  "py_truediv a b = (if b = 0 then Inl ZeroDivisionError else Inr (a / b))"

text \<open>
  The built-in \<^verbatim>\<open>round(x, n)\<close> rounds to \<^verbatim>\<open>n\<close> decimals, a tie going to the even
  neighbour, and returns a float. This is the rounding at the level of reals. There a
  tie is a value such as 7.9135 at three decimals; the float nearest to it lies a
  little to one side and is no tie, so the concrete values evaluated at this level are
  chosen away from ties, where the reals and the floats agree. The rounding of the
  float itself is \<open>float_round\<close> below.
\<close>

definition round_half_even :: "real \<Rightarrow> int" where
  "round_half_even x =
     (let f = \<lfloor>x\<rfloor>; d = x - of_int f
      in if d < 1 / 2 then f
         else if 1 / 2 < d then f + 1
         else if even f then f else f + 1)"

definition py_round :: "real \<Rightarrow> nat \<Rightarrow> real" where
  "py_round x n = of_int (round_half_even (x * 10 ^ n)) / 10 ^ n"

section \<open>data.py: constants\<close>

definition CO2_FACTOR :: real where
  "CO2_FACTOR = 7 / 100"

definition MMBTU_TO_TOE :: real where
  "MMBTU_TO_TOE = 41868 / 1000"

section \<open>calculator.py\<close>

record SECResult =
  current_sec :: real
  baseline_sec :: real
  target_sec :: real
  reduction_pct :: real
  is_compliant :: bool
  energy_savings_mmbtu :: real
  co2_avoided_tonnes :: real

text \<open>
  \<^verbatim>\<open>calculate_sec(total_energy_mmbtu, crude_throughput_mt, baseline_sec=8.33,
  target_reduction_pct=5.0, capacity_utilization=0.85)\<close>. The two divisions by an argument
  can raise, in the order of the source; the division by the literal 100 cannot. The
  compliance flag compares the unrounded values; the fields are rounded when the result
  is built. This is the function at the level of reals, which decides when it raises;
  \<open>calculate_sec_float\<close> below is the function on floats, which decides the values.
\<close>

definition calculate_sec :: "real \<Rightarrow> real \<Rightarrow> real \<Rightarrow> real \<Rightarrow> real \<Rightarrow> error + SECResult" where
  "calculate_sec total_energy_mmbtu crude_throughput_mt baseline target_reduction_pct
       capacity_utilization =
     (case py_truediv total_energy_mmbtu crude_throughput_mt of
        Inl e \<Rightarrow> Inl e
      | Inr cur \<Rightarrow>
          (let tgt = baseline * (1 - target_reduction_pct / 100)
           in case py_truediv (baseline - cur) baseline of
                Inl e \<Rightarrow> Inl e
              | Inr q \<Rightarrow>
                  (let reduction = q * 100;
                       energy_savings = (baseline - cur) * crude_throughput_mt;
                       co2_avoided = energy_savings * CO2_FACTOR
                   in Inr \<lparr>current_sec = py_round cur 3,
                           baseline_sec = baseline,
                           target_sec = py_round tgt 3,
                           reduction_pct = py_round reduction 2,
                           is_compliant = (cur < tgt),
                           energy_savings_mmbtu = py_round energy_savings 0,
                           co2_avoided_tonnes = py_round co2_avoided 0\<rparr>)))"

record ESCertResult =
  is_generator :: bool
  escerts_toe :: real
  value_inr :: real
  value_usd :: real
  breakeven_sec :: "real option"

text \<open>
  \<^verbatim>\<open>calculate_escerts(current_sec, target_sec, capacity_mmtpa, escert_price_inr=4000,
  usd_inr_rate=83.0, utilization=0.85)\<close>. The division by the constant MMBTU_TO_TOE
  cannot raise; the division by \<^verbatim>\<open>usd_inr_rate\<close> can.
\<close>

definition calculate_escerts ::
    "real \<Rightarrow> real \<Rightarrow> real \<Rightarrow> real \<Rightarrow> real \<Rightarrow> real \<Rightarrow> error + ESCertResult" where
  "calculate_escerts cur tgt capacity_mmtpa escert_price_inr usd_inr_rate utilization =
     (let overachievement = tgt - cur;
          annual_throughput = capacity_mmtpa * 1000000 * utilization;
          toe = overachievement * annual_throughput / MMBTU_TO_TOE;
          inr = toe * escert_price_inr
      in case py_truediv inr usd_inr_rate of
           Inl e \<Rightarrow> Inl e
         | Inr usd \<Rightarrow>
             Inr \<lparr>is_generator = (0 < overachievement),
                  escerts_toe = py_round toe 0,
                  value_inr = py_round inr 0,
                  value_usd = py_round usd 0,
                  breakeven_sec = (if overachievement < 0 then Some tgt else None)\<rparr>)"

text \<open>
  A row of the refinery table, with the columns the core reads, and the two dictionaries
  \<^verbatim>\<open>calculate_portfolio_escerts\<close> builds.
\<close>

record refinery_row =
  row_refinery :: string
  row_capacity_mmtpa :: real
  row_pat_cycle_entry :: int
  row_baseline_sec :: real
  row_current_sec :: real
  row_target_sec :: real

record position =
  pos_refinery :: string
  pos_escerts_toe :: real
  pos_value_inr_cr :: real

record portfolio =
  total_generated_toe :: real
  total_required_toe :: real
  net_balance_toe :: real
  market_value_inr_cr :: real
  is_surplus :: bool
  positions :: "position list"

text \<open>
  The loop of \<^verbatim>\<open>calculate_portfolio_escerts\<close> over the rows, on the three variables it
  updates: \<^verbatim>\<open>total_generated\<close>, \<^verbatim>\<open>total_required\<close> and \<^verbatim>\<open>refinery_positions\<close>. The
  call of \<^verbatim>\<open>calculate_escerts\<close> passes four arguments, so the exchange rate and the
  utilization are the defaults 83.0 and 0.85. There is no exception handler: an error
  of the call ends the loop and the function.
\<close>

fun portfolio_loop ::
    "real \<Rightarrow> refinery_row list \<Rightarrow> real \<times> real \<times> position list
      \<Rightarrow> error + (real \<times> real \<times> position list)" where
  "portfolio_loop escert_price_inr [] acc = Inr acc"
| "portfolio_loop escert_price_inr (row # rows) (total_generated, total_required, refinery_positions) =
     (case calculate_escerts (row_current_sec row) (row_target_sec row)
             (row_capacity_mmtpa row) escert_price_inr 83 (85 / 100) of
        Inl e \<Rightarrow> Inl e
      | Inr result \<Rightarrow>
          portfolio_loop escert_price_inr rows
            (if is_generator result then total_generated + escerts_toe result
             else total_generated,
             if is_generator result then total_required
             else total_required + \<bar>escerts_toe result\<bar>,
             refinery_positions @
               [\<lparr>pos_refinery = row_refinery row,
                 pos_escerts_toe = escerts_toe result,
                 pos_value_inr_cr = value_inr result / 10000000\<rparr>]))"

definition calculate_portfolio_escerts :: "refinery_row list \<Rightarrow> real \<Rightarrow> error + portfolio" where
  "calculate_portfolio_escerts refineries_df escert_price_inr =
     (case portfolio_loop escert_price_inr refineries_df (0, 0, []) of
        Inl e \<Rightarrow> Inl e
      | Inr (total_generated, total_required, refinery_positions) \<Rightarrow>
          (let net_balance = total_generated - total_required
           in Inr \<lparr>total_generated_toe = total_generated,
                   total_required_toe = total_required,
                   net_balance_toe = net_balance,
                   market_value_inr_cr = \<bar>net_balance\<bar> * escert_price_inr / 10000000,
                   is_surplus = (0 < net_balance),
                   positions = refinery_positions\<rparr>))"

text \<open>
  What the loop computes for one row, read off the call it makes: the certificate
  result of the row, its entry of the position list, and what it adds to each total.
\<close>

definition row_result :: "real \<Rightarrow> refinery_row \<Rightarrow> ESCertResult" where
  "row_result escert_price_inr row =
     projr (calculate_escerts (row_current_sec row) (row_target_sec row)
              (row_capacity_mmtpa row) escert_price_inr 83 (85 / 100))"

definition row_position :: "real \<Rightarrow> refinery_row \<Rightarrow> position" where
  "row_position escert_price_inr row =
     \<lparr>pos_refinery = row_refinery row,
      pos_escerts_toe = escerts_toe (row_result escert_price_inr row),
      pos_value_inr_cr = value_inr (row_result escert_price_inr row) / 10000000\<rparr>"

definition row_generated :: "real \<Rightarrow> refinery_row \<Rightarrow> real" where
  "row_generated escert_price_inr row =
     (if is_generator (row_result escert_price_inr row)
      then escerts_toe (row_result escert_price_inr row) else 0)"

definition row_required :: "real \<Rightarrow> refinery_row \<Rightarrow> real" where
  "row_required escert_price_inr row =
     (if is_generator (row_result escert_price_inr row)
      then 0 else \<bar>escerts_toe (row_result escert_price_inr row)\<bar>)"

section \<open>models.py\<close>

record DiffInDiffCoefficients =
  avg_treatment_effect :: real
  std_error :: real
  early_entrant_effect :: real
  late_entrant_effect :: real
  large_refinery_adj :: real
  r_squared :: real
  n_observations :: int

definition MODEL :: DiffInDiffCoefficients where
  "MODEL =
     \<lparr>avg_treatment_effect = - 241 / 1000,
      std_error = 171 / 1000,
      early_entrant_effect = - 518 / 1000,
      late_entrant_effect = - 22 / 1000,
      large_refinery_adj = 85 / 1000,
      r_squared = 843 / 1000,
      n_observations = 117\<rparr>"

definition predict_sec_reduction :: "int \<Rightarrow> real \<Rightarrow> DiffInDiffCoefficients \<Rightarrow> real" where
  "predict_sec_reduction pat_cycle_entry capacity_mmtpa model =
     (let base_effect =
            (if pat_cycle_entry \<le> 2 then \<bar>early_entrant_effect model\<bar> * 100
             else \<bar>late_entrant_effect model\<bar> * 100);
          size_adj = (if 10 < capacity_mmtpa then - large_refinery_adj model * 100 else 0)
      in base_effect + size_adj)"

text \<open>
  numpy is a library the module calls, not code of the repository: the four operations
  \<^verbatim>\<open>monte_carlo_compliance\<close> uses are parameters of the model. The type \<open>'g\<close> is the
  state of numpy's global generator.
  \<^item> \<open>random_seed\<close> is \<^verbatim>\<open>np.random.seed(seed)\<close>: it replaces the global state by one that
    is computed from the seed alone, or raises on a seed out of range.
  \<^item> \<open>random_normal\<close> is \<^verbatim>\<open>np.random.normal(loc, scale, size)\<close>: it reads the global
    state, returns the draws and the state after them, or raises on a negative scale
    or size.
  \<^item> \<open>mean_of_mask\<close> is \<^verbatim>\<open>.mean()\<close> of a boolean array.
  \<^item> \<open>percentile\<close> is \<^verbatim>\<open>np.percentile(a, q)\<close>.
\<close>

record 'g numpy =
  random_seed :: "int \<Rightarrow> error + 'g"
  random_normal :: "real \<Rightarrow> real \<Rightarrow> int \<Rightarrow> 'g \<Rightarrow> error + real list \<times> 'g"
  mean_of_mask :: "bool list \<Rightarrow> real"
  percentile :: "real list \<Rightarrow> real \<Rightarrow> error + real"

text \<open>
  \<^verbatim>\<open>monte_carlo_compliance(baseline_sec, target_sec, predicted_reduction_pct,
  n_simulations=10000, std_error_pct=17.1, seed=None)\<close>, with the state of the global
  generator passed in and returned. The result is the tuple
  \<^verbatim>\<open>(compliance_prob, ci_lower, ci_upper, simulated_secs)\<close>.
\<close>

definition monte_carlo_compliance ::
    "'g numpy \<Rightarrow> real \<Rightarrow> real \<Rightarrow> real \<Rightarrow> int \<Rightarrow> real \<Rightarrow> int option \<Rightarrow> 'g
      \<Rightarrow> error + (real \<times> real \<times> real \<times> real list) \<times> 'g" where
  "monte_carlo_compliance np baseline tgt predicted_reduction_pct n_simulations std_error_pct
       seed g =
     (case (case seed of None \<Rightarrow> Inr g | Some s \<Rightarrow> random_seed np s) of
        Inl e \<Rightarrow> Inl e
      | Inr g1 \<Rightarrow>
          (case random_normal np predicted_reduction_pct std_error_pct n_simulations g1 of
             Inl e \<Rightarrow> Inl e
           | Inr (simulated_effects, g2) \<Rightarrow>
               (let simulated_secs = map (\<lambda>x. baseline * (1 - x / 100)) simulated_effects;
                    compliance_prob =
                      mean_of_mask np (map (\<lambda>x. x < tgt) simulated_secs) * 100
                in case percentile np simulated_secs (25 / 10) of
                     Inl e \<Rightarrow> Inl e
                   | Inr ci_lower \<Rightarrow>
                       (case percentile np simulated_secs (975 / 10) of
                          Inl e \<Rightarrow> Inl e
                        | Inr ci_upper \<Rightarrow>
                            Inr ((compliance_prob, ci_lower, ci_upper, simulated_secs), g2)))))"

text \<open>The dictionary \<^verbatim>\<open>batch_compliance_forecast\<close> appends for each row.\<close>

record forecast =
  fc_refinery :: string
  fc_baseline_sec :: real
  fc_target_sec :: real
  fc_predicted_sec :: real
  fc_predicted_reduction_pct :: real
  fc_compliance_probability :: real
  fc_ci_lower :: real
  fc_ci_upper :: real
  fc_status :: string

text \<open>
  The loop of \<^verbatim>\<open>batch_compliance_forecast\<close>. The seed of a row is
  \<^verbatim>\<open>hash(row['refinery']) % 2**32\<close>. The built-in \<^verbatim>\<open>hash\<close> of a string is keyed by
  a salt the interpreter draws when it starts (unless PYTHONHASHSEED fixes it), so the
  hash function of the running process, \<open>str_hash\<close>, is a parameter. The modulus is
  positive, so Python's \<^verbatim>\<open>%\<close> is \<open>mod\<close>.
\<close>

fun batch_loop ::
    "'g numpy \<Rightarrow> (string \<Rightarrow> int) \<Rightarrow> refinery_row list \<Rightarrow> forecast list \<Rightarrow> 'g
      \<Rightarrow> error + forecast list \<times> 'g" where
  "batch_loop np str_hash [] results g = Inr (results, g)"
| "batch_loop np str_hash (row # rows) results g =
     (let pred_reduction =
            predict_sec_reduction (row_pat_cycle_entry row) (row_capacity_mmtpa row) MODEL;
          pred_sec = row_baseline_sec row * (1 - pred_reduction / 100)
      in case monte_carlo_compliance np (row_baseline_sec row) (row_target_sec row)
                pred_reduction 5000 (171 / 10)
                (Some (str_hash (row_refinery row) mod 2 ^ 32)) g of
           Inl e \<Rightarrow> Inl e
         | Inr ((prob, ci_low, ci_high, sims), g') \<Rightarrow>
             batch_loop np str_hash rows
               (results @
                  [\<lparr>fc_refinery = row_refinery row,
                    fc_baseline_sec = row_baseline_sec row,
                    fc_target_sec = row_target_sec row,
                    fc_predicted_sec = py_round pred_sec 2,
                    fc_predicted_reduction_pct = py_round pred_reduction 1,
                    fc_compliance_probability = py_round prob 1,
                    fc_ci_lower = py_round ci_low 2,
                    fc_ci_upper = py_round ci_high 2,
                    fc_status =
                      (if 70 \<le> prob then ''High''
                       else if 40 \<le> prob then ''Medium'' else ''At Risk'')\<rparr>])
               g')"

definition batch_compliance_forecast ::
    "'g numpy \<Rightarrow> (string \<Rightarrow> int) \<Rightarrow> refinery_row list \<Rightarrow> 'g \<Rightarrow> error + forecast list \<times> 'g" where
  "batch_compliance_forecast np str_hash refineries_df g =
     batch_loop np str_hash refineries_df [] g"

section \<open>A generator to run the simulation on\<close>

text \<open>
  The first row of the table in \<^verbatim>\<open>get_refinery_data\<close> of data.py.
\<close>

definition IOCL_Panipat :: refinery_row where
  "IOCL_Panipat =
     \<lparr>row_refinery = ''IOCL Panipat'', row_capacity_mmtpa = 15, row_pat_cycle_entry = 1,
      row_baseline_sec = 82 / 10, row_current_sec = 64 / 10, row_target_sec = 78 / 10\<rparr>"

text \<open>
  A stand-in for numpy, to evaluate the simulation at concrete inputs. Its generator
  state is an integer and seeding sets the state to the seed; every draw of
  \<open>random_normal\<close> is the mean plus the state; the mean of a mask is the share of its
  true entries; a percentile of a sample is its first element, which is every
  percentile of the constant samples this generator draws. It keeps the two promises
  of numpy that the model relies on: a seeded state depends on the seed alone, and the
  draws depend on the state and the arguments alone.
\<close>

definition stub_numpy :: "int numpy" where
  "stub_numpy =
     \<lparr>random_seed = (\<lambda>seed. if 0 \<le> seed \<and> seed < 2 ^ 32 then Inr seed else Inl ValueError),
      random_normal =
        (\<lambda>loc scale size g.
           if scale < 0 \<or> size < 0 then Inl ValueError
           else Inr (replicate (nat size) (loc + of_int g), g + size)),
      mean_of_mask = (\<lambda>mask. of_nat (length (filter id mask)) / of_nat (length mask)),
      percentile = (\<lambda>a q. if a = [] then Inl ValueError else Inr (hd a))\<rparr>"

section \<open>calculator.py on binary floats\<close>

text \<open>
  A Python float is an IEEE 754 double: not a number, one of the two infinities, or a
  finite value, which is a rational. The two zeros are one value here, as \<^verbatim>\<open>==\<close> has
  them; nothing in the calculators reads the sign of a zero.
\<close>

datatype pyfloat = Finite rat | PosInf | NegInf | NaN

text \<open>
  \<open>ilog2 x\<close> is the binary exponent of a positive rational: the \<open>e\<close> with
  \<open>2 powi e \<le> x < 2 powi (e + 1)\<close>. The bit lengths of the numerator and the
  denominator give it up to one, and a comparison settles it.
\<close>

definition ilog2 :: "rat \<Rightarrow> int" where
  "ilog2 x =
     (let k = bitlen (fst (quotient_of x)) - bitlen (snd (quotient_of x))
      in if 2 powi k \<le> x then k else k - 1)"

definition round_half_even_rat :: "rat \<Rightarrow> int" where
  "round_half_even_rat x =
     (let f = \<lfloor>x\<rfloor>; d = x - of_int f
      in if d < 1 / 2 then f
         else if 1 / 2 < d then f + 1
         else if even f then f else f + 1)"

text \<open>
  \<open>to_double x\<close> is the double nearest to the rational \<open>x\<close>, a tie going to the even
  significand: the result of every float operation whose exact result is \<open>x\<close>, and the
  value of a decimal literal. The significand has 53 bits, so the unit in the last
  place is \<open>2 powi (e - 52)\<close>, and \<open>2 powi (- 1074)\<close> for the subnormal numbers; a
  result that rounds to \<open>2 powi 1024\<close> or more is an infinity.
\<close>

definition to_double :: "rat \<Rightarrow> pyfloat" where
  "to_double x =
     (if x = 0 then Finite 0
      else
        (let q = max (ilog2 \<bar>x\<bar> - 52) (- 1074);
             y = of_int (round_half_even_rat (\<bar>x\<bar> / 2 powi q)) * 2 powi q
         in if 2 powi 1024 \<le> y then (if 0 < x then PosInf else NegInf)
            else Finite (if 0 < x then y else - y)))"

text \<open>
  The comparison \<^verbatim>\<open><\<close> and the operations \<^verbatim>\<open>+\<close>, \<^verbatim>\<open>-\<close>, \<^verbatim>\<open>*\<close> of floats, with the
  special values as IEEE 754 has them: a comparison with nan is false; inf - inf and
  0 * inf are nan.
\<close>

definition float_lt :: "pyfloat \<Rightarrow> pyfloat \<Rightarrow> bool" where
  "float_lt a b =
     (case (a, b) of
        (NaN, _) \<Rightarrow> False
      | (_, NaN) \<Rightarrow> False
      | (Finite x, Finite y) \<Rightarrow> x < y
      | (NegInf, NegInf) \<Rightarrow> False
      | (NegInf, _) \<Rightarrow> True
      | (_, NegInf) \<Rightarrow> False
      | (PosInf, _) \<Rightarrow> False
      | (_, PosInf) \<Rightarrow> True)"

definition float_neg :: "pyfloat \<Rightarrow> pyfloat" where
  "float_neg a = (case a of Finite x \<Rightarrow> Finite (- x) | PosInf \<Rightarrow> NegInf | NegInf \<Rightarrow> PosInf | NaN \<Rightarrow> NaN)"

definition float_add :: "pyfloat \<Rightarrow> pyfloat \<Rightarrow> pyfloat" where
  "float_add a b =
     (case (a, b) of
        (NaN, _) \<Rightarrow> NaN
      | (_, NaN) \<Rightarrow> NaN
      | (Finite x, Finite y) \<Rightarrow> to_double (x + y)
      | (PosInf, NegInf) \<Rightarrow> NaN
      | (NegInf, PosInf) \<Rightarrow> NaN
      | (PosInf, _) \<Rightarrow> PosInf
      | (NegInf, _) \<Rightarrow> NegInf
      | (_, PosInf) \<Rightarrow> PosInf
      | (_, NegInf) \<Rightarrow> NegInf)"

definition float_sub :: "pyfloat \<Rightarrow> pyfloat \<Rightarrow> pyfloat" where
  "float_sub a b = float_add a (float_neg b)"

definition float_sign :: "pyfloat \<Rightarrow> int" where
  "float_sign a = (case a of Finite x \<Rightarrow> (if x < 0 then - 1 else if x = 0 then 0 else 1) | PosInf \<Rightarrow> 1 | NegInf \<Rightarrow> - 1 | NaN \<Rightarrow> 0)"

definition signed_inf :: "int \<Rightarrow> pyfloat" where
  "signed_inf s = (if 0 < s then PosInf else NegInf)"

definition float_mul :: "pyfloat \<Rightarrow> pyfloat \<Rightarrow> pyfloat" where
  "float_mul a b =
     (case (a, b) of
        (NaN, _) \<Rightarrow> NaN
      | (_, NaN) \<Rightarrow> NaN
      | (Finite x, Finite y) \<Rightarrow> to_double (x * y)
      | _ \<Rightarrow> if float_sign a * float_sign b = 0 then NaN
             else signed_inf (float_sign a * float_sign b))"

text \<open>
  The division \<^verbatim>\<open>a / b\<close> of floats: Python tests the divisor first and raises
  ZeroDivisionError on a zero, whatever the dividend; otherwise the quotient is the
  one of IEEE 754.
\<close>

definition float_truediv :: "pyfloat \<Rightarrow> pyfloat \<Rightarrow> error + pyfloat" where
  "float_truediv a b =
     (if b = Finite 0 then Inl ZeroDivisionError
      else Inr
        (case (a, b) of
           (NaN, _) \<Rightarrow> NaN
         | (_, NaN) \<Rightarrow> NaN
         | (Finite x, Finite y) \<Rightarrow> to_double (x / y)
         | (Finite x, _) \<Rightarrow> Finite 0
         | (_, Finite y) \<Rightarrow> signed_inf (float_sign a * float_sign b)
         | _ \<Rightarrow> NaN))"

text \<open>
  The built-in \<^verbatim>\<open>round(x, n)\<close> on a float, for \<open>n\<close> from 0: the exact value of the float
  is rounded to \<open>n\<close> decimals, a tie going to the even neighbour, and the decimal is
  converted to the nearest double. An infinity and nan are returned as they are.
\<close>

definition float_round :: "pyfloat \<Rightarrow> nat \<Rightarrow> pyfloat" where
  "float_round a n =
     (case a of
        Finite x \<Rightarrow> to_double (of_int (round_half_even_rat (x * 10 ^ n)) / 10 ^ n)
      | _ \<Rightarrow> a)"

text \<open>
  \<^verbatim>\<open>calculate_sec\<close> on floats: the same statements as \<open>calculate_sec\<close> above, each
  operation being the float operation. The integer literals 100 and 1 are converted to
  the floats 100.0 and 1.0, and CO2_FACTOR is the double of the literal 0.07.
\<close>

record SECResult_float =
  current_sec_f :: pyfloat
  baseline_sec_f :: pyfloat
  target_sec_f :: pyfloat
  reduction_pct_f :: pyfloat
  is_compliant_f :: bool
  energy_savings_mmbtu_f :: pyfloat
  co2_avoided_tonnes_f :: pyfloat

definition calculate_sec_float ::
    "pyfloat \<Rightarrow> pyfloat \<Rightarrow> pyfloat \<Rightarrow> pyfloat \<Rightarrow> pyfloat \<Rightarrow> error + SECResult_float" where
  "calculate_sec_float total_energy_mmbtu crude_throughput_mt baseline target_reduction_pct
       capacity_utilization =
     (case float_truediv total_energy_mmbtu crude_throughput_mt of
        Inl e \<Rightarrow> Inl e
      | Inr cur \<Rightarrow>
          (case float_truediv target_reduction_pct (Finite 100) of
             Inl e \<Rightarrow> Inl e
           | Inr pct \<Rightarrow>
               (let tgt = float_mul baseline (float_sub (Finite 1) pct)
                in case float_truediv (float_sub baseline cur) baseline of
                     Inl e \<Rightarrow> Inl e
                   | Inr q \<Rightarrow>
                       (let reduction = float_mul q (Finite 100);
                            energy_savings = float_mul (float_sub baseline cur) crude_throughput_mt;
                            co2_avoided = float_mul energy_savings (to_double (7 / 100))
                        in Inr \<lparr>current_sec_f = float_round cur 3,
                                baseline_sec_f = baseline,
                                target_sec_f = float_round tgt 3,
                                reduction_pct_f = float_round reduction 2,
                                is_compliant_f = float_lt cur tgt,
                                energy_savings_mmbtu_f = float_round energy_savings 0,
                                co2_avoided_tonnes_f = float_round co2_avoided 0\<rparr>))))"

section \<open>The calculators: when they return, and what\<close>

lemma py_truediv_Inr: "b \<noteq> 0 \<Longrightarrow> py_truediv a b = Inr (a / b)"
  by (simp add: py_truediv_def)

lemma py_truediv_zero: "py_truediv a 0 = Inl ZeroDivisionError"
  by (simp add: py_truediv_def)

lemma calculate_sec_Inr:
  assumes "t \<noteq> 0" and "b \<noteq> 0"
  shows "calculate_sec e t b p u =
     Inr \<lparr>current_sec = py_round (e / t) 3,
          baseline_sec = b,
          target_sec = py_round (b * (1 - p / 100)) 3,
          reduction_pct = py_round ((b - e / t) / b * 100) 2,
          is_compliant = (e / t < b * (1 - p / 100)),
          energy_savings_mmbtu = py_round ((b - e / t) * t) 0,
          co2_avoided_tonnes = py_round ((b - e / t) * t * CO2_FACTOR) 0\<rparr>"
  using assms by (simp add: calculate_sec_def py_truediv_Inr Let_def)

lemma calculate_sec_Inl:
  assumes "t = 0 \<or> b = 0"
  shows "calculate_sec e t b p u = Inl ZeroDivisionError"
  using assms by (auto simp add: calculate_sec_def py_truediv_def Let_def)

lemma calculate_escerts_Inr:
  assumes "rate \<noteq> 0"
  shows "calculate_escerts c t cap price rate u =
     Inr \<lparr>is_generator = (0 < t - c),
          escerts_toe = py_round ((t - c) * (cap * 1000000 * u) / MMBTU_TO_TOE) 0,
          value_inr = py_round ((t - c) * (cap * 1000000 * u) / MMBTU_TO_TOE * price) 0,
          value_usd = py_round ((t - c) * (cap * 1000000 * u) / MMBTU_TO_TOE * price / rate) 0,
          breakeven_sec = (if t - c < 0 then Some t else None)\<rparr>"
  using assms by (simp add: calculate_escerts_def py_truediv_Inr Let_def)

lemma calculate_escerts_Inl: "calculate_escerts c t cap price 0 u = Inl ZeroDivisionError"
  by (simp add: calculate_escerts_def py_truediv_zero Let_def)

section \<open>calculate_sec on binary floats\<close>

text \<open>Floors of rational numerals, for the evaluation of roundings.\<close>

lemma floor_rat_numeral:
  "\<lfloor>numeral a / numeral b :: rat\<rfloor> = numeral a div numeral b"
  "\<lfloor>- (numeral a / numeral b) :: rat\<rfloor> = - numeral a div numeral b"
  "\<lfloor>1 / numeral b :: rat\<rfloor> = 1 div numeral b"
  "\<lfloor>- (1 / numeral b) :: rat\<rfloor> = - 1 div numeral b"
  using floor_divide_of_int_eq [of "numeral a" "numeral b", where ?'a = rat]
    floor_divide_of_int_eq [of "- numeral a" "numeral b", where ?'a = rat]
    floor_divide_of_int_eq [of 1 "numeral b", where ?'a = rat]
    floor_divide_of_int_eq [of "- 1" "numeral b", where ?'a = rat]
  by simp_all

lemmas float_eval = round_half_even_rat_def Let_def floor_rat_numeral

text \<open>
  The binary exponent: the quotient of the numerator and the denominator lies within
  one binary order of the difference of their bit lengths, so \<open>ilog2\<close> is the exponent.
\<close>

lemma ilog2_bracket:
  fixes x :: rat
  assumes "0 < x"
  defines "k \<equiv> bitlen (fst (quotient_of x)) - bitlen (snd (quotient_of x))"
  shows "2 powi (k - 1) < x" and "x < 2 powi (k + 1)"
proof -
  obtain a b where ab: "quotient_of x = (a, b)" by force
  then have b: "0 < b" by (rule quotient_of_denom_pos)
  have x: "x = of_int a / of_int b" using ab by (rule quotient_of_div)
  with assms(1) b have a: "0 < a" by (simp add: zero_less_divide_iff)
  have la: "1 \<le> bitlen a" and lb: "1 \<le> bitlen b"
    using a b bitlen_eq_zero_iff [of a] bitlen_eq_zero_iff [of b] bitlen_nonneg [of a]
      bitlen_nonneg [of b] by linarith+
  have pw: "(2::rat) powi n = of_int (2 ^ nat n)" if "0 \<le> n" for n
    using that by (simp add: power_int_nonneg_exp)
  have a_lo: "2 powi (bitlen a - 1) \<le> (of_int a :: rat)"
    using bitlen_bounds [OF a] la unfolding pw [of "bitlen a - 1", OF diff_ge_0_iff_ge [THEN iffD2, OF la]]
    by (simp only: of_int_le_iff)
  have a_hi: "(of_int a :: rat) < 2 powi (bitlen a)"
    using bitlen_bounds [OF a] unfolding pw [OF bitlen_nonneg]
    by (simp only: of_int_less_iff)
  have b_lo: "2 powi (bitlen b - 1) \<le> (of_int b :: rat)"
    using bitlen_bounds [OF b] lb unfolding pw [of "bitlen b - 1", OF diff_ge_0_iff_ge [THEN iffD2, OF lb]]
    by (simp only: of_int_le_iff)
  have b_hi: "(of_int b :: rat) < 2 powi (bitlen b)"
    using bitlen_bounds [OF b] unfolding pw [OF bitlen_nonneg]
    by (simp only: of_int_less_iff)
  have k: "k = bitlen a - bitlen b" by (simp add: k_def ab)
  have bpos: "(0::rat) < of_int b" using b by simp
  have p_pos: "(0::rat) < 2 powi n" for n by (simp add: zero_less_power_int)
  have "2 powi (k - 1) = (2::rat) powi (bitlen a - 1) / 2 powi (bitlen b)"
    unfolding k by (simp add: power_int_diff)
  also have "\<dots> \<le> of_int a / 2 powi (bitlen b)"
    using a_lo p_pos by (simp add: divide_right_mono)
  also have "\<dots> < of_int a / of_int b"
    using b_hi bpos a by (simp add: divide_strict_left_mono)
  finally show "2 powi (k - 1) < x" by (simp add: x)
  have "x = of_int a / of_int b" by (rule x)
  also have "\<dots> < 2 powi (bitlen a) / of_int b"
    using a_hi bpos by (simp add: divide_strict_right_mono)
  also have "\<dots> \<le> 2 powi (bitlen a) / 2 powi (bitlen b - 1)"
    using b_lo p_pos [of "bitlen b - 1"] p_pos [of "bitlen a"]
    by (intro frac_le) simp_all
  also have "\<dots> = 2 powi (bitlen a - (bitlen b - 1))"
    by (simp add: power_int_diff)
  also have "bitlen a - (bitlen b - 1) = k + 1"
    unfolding k by simp
  finally show "x < 2 powi (k + 1)" .
qed

lemma powi_exponent_less:
  fixes x :: rat
  assumes "2 powi m \<le> x" and "x < 2 powi n"
  shows "m < n"
proof (rule ccontr)
  assume "\<not> m < n"
  then have "(2::rat) powi n \<le> 2 powi m"
    by (intro power_int_increasing) auto
  with assms show False by simp
qed

lemma ilog2_eq:
  fixes x :: rat
  assumes lo: "2 powi e \<le> x" and hi: "x < 2 powi (e + 1)"
  shows "ilog2 x = e"
proof -
  have p: "(0::rat) < 2 powi e" by (rule zero_less_power_int) simp
  have pos: "0 < x" by (rule less_le_trans [OF p lo])
  define k where "k = bitlen (fst (quotient_of x)) - bitlen (snd (quotient_of x))"
  have br: "2 powi (k - 1) < x" "x < 2 powi (k + 1)"
    using ilog2_bracket [OF pos] by (simp_all add: k_def)
  show ?thesis
  proof (cases "2 powi k \<le> x")
    case True
    have "k < e + 1" using True hi by (rule powi_exponent_less)
    moreover have "e < k + 1" using lo br(2) by (rule powi_exponent_less)
    ultimately show ?thesis using True by (simp add: ilog2_def k_def Let_def)
  next
    case False
    then have "x < 2 powi k" by simp
    with lo have "e < k" by (rule powi_exponent_less)
    moreover have "k - 1 < e + 1" using br(1) hi
      by (intro powi_exponent_less [of "k - 1" x]) simp_all
    ultimately show ?thesis using False by (simp add: ilog2_def k_def Let_def)
  qed
qed

text \<open>
  With the exponent at hand, \<open>to_double\<close> is a rounding of a quotient of numerals.
\<close>

lemma to_double_pos:
  assumes "2 powi e \<le> x" and "x < 2 powi (e + 1)"
  shows "to_double x =
     (let q = max (e - 52) (- 1074);
          y = of_int (round_half_even_rat (x / 2 powi q)) * 2 powi q
      in if 2 powi 1024 \<le> y then PosInf else Finite y)"
proof -
  have p: "(0::rat) < 2 powi e" by (rule zero_less_power_int) simp
  have pos: "0 < x" by (rule less_le_trans [OF p assms(1)])
  then have "\<bar>x\<bar> = x" by simp
  with pos ilog2_eq [OF assms] show ?thesis
    by (simp add: to_double_def Let_def)
qed

lemma to_double_neg:
  assumes "2 powi e \<le> - x" and "- x < 2 powi (e + 1)"
  shows "to_double x =
     (let q = max (e - 52) (- 1074);
          y = of_int (round_half_even_rat (- x / 2 powi q)) * 2 powi q
      in if 2 powi 1024 \<le> y then NegInf else Finite (- y))"
proof -
  have p: "(0::rat) < 2 powi e" by (rule zero_less_power_int) simp
  have pos: "0 < - x" by (rule less_le_trans [OF p assms(1)])
  then have "\<bar>x\<bar> = - x" by simp
  with pos ilog2_eq [OF assms] show ?thesis
    by (simp add: to_double_def Let_def)
qed


lemma to_double_zero: "to_double 0 = Finite 0"
  by (simp add: to_double_def)

lemmas float_ops = float_truediv_def float_mul_def float_sub_def float_add_def float_neg_def
  float_round_def float_lt_def to_double_zero


lemma float_lt_irrefl: "\<not> float_lt a a"
  by (cases a) (simp_all add: float_lt_def)

lemma float_lt_zero_nonzero: "float_lt (Finite 0) t \<Longrightarrow> t \<noteq> Finite 0"
  by (auto simp add: float_lt_def)

lemma float_truediv_Inr: "b \<noteq> Finite 0 \<Longrightarrow> \<exists>q. float_truediv a b = Inr q"
  by (simp add: float_truediv_def)

lemma float_truediv_Finite:
  "y \<noteq> 0 \<Longrightarrow> float_truediv (Finite x) (Finite y) = Inr (to_double (x / y))"
  by (simp add: float_truediv_def)

lemma calculate_sec_float_Inr:
  assumes "float_truediv e t = Inr cur" and "float_truediv p (Finite 100) = Inr pct"
    and "float_truediv (float_sub b cur) b = Inr q"
  shows "calculate_sec_float e t b p u =
     Inr \<lparr>current_sec_f = float_round cur 3,
          baseline_sec_f = b,
          target_sec_f = float_round (float_mul b (float_sub (Finite 1) pct)) 3,
          reduction_pct_f = float_round (float_mul q (Finite 100)) 2,
          is_compliant_f = float_lt cur (float_mul b (float_sub (Finite 1) pct)),
          energy_savings_mmbtu_f = float_round (float_mul (float_sub b cur) t) 0,
          co2_avoided_tonnes_f =
            float_round (float_mul (float_mul (float_sub b cur) t) (to_double (7 / 100))) 0\<rparr>"
  using assms by (simp add: calculate_sec_float_def Let_def)

text \<open>
  On floats the function raises on the inputs on which it raises on reals: a zero
  throughput or a zero baseline.
\<close>

lemma calculate_sec_float_failure:
  "calculate_sec_float e t b p u = Inl ZeroDivisionError \<longleftrightarrow> t = Finite 0 \<or> b = Finite 0"
proof (cases "t = Finite 0 \<or> b = Finite 0")
  case True
  then show ?thesis
    by (auto simp add: calculate_sec_float_def float_truediv_def Let_def)
next
  case False
  then obtain cur where cur: "float_truediv e t = Inr cur"
    using float_truediv_Inr by blast
  obtain pct where pct: "float_truediv p (Finite 100) = Inr pct"
    using float_truediv_Inr [of "Finite 100" p] by auto
  obtain q where q: "float_truediv (float_sub b cur) b = Inr q"
    using False float_truediv_Inr [of b] by blast
  show ?thesis
    using False by (simp add: calculate_sec_float_Inr [OF cur pct q])
qed

text \<open>
  The function at four inputs, every field as the program computes it; the
  utilization \<open>u\<close> is an argument the function does not read. The first is
  the scenario of the test suite, \<^verbatim>\<open>calculate_sec(85_000_000, 10_000_000, 8.33)\<close>,
  where the literal 8.33 is its nearest double. At the third the quotient 7.9475 and the
  target 8.5 * (1 - 6.5 / 100) are the same real number, but the computed target is the
  next float above the computed quotient, and the facility is compliant. At the fourth
  the quotient 0.0075 is a tie of the rounding to three decimals as a real number, but
  its float lies below the tie and is rounded down to 0.007.
\<close>

lemma calculate_sec_float_scenario:
  "calculate_sec_float (Finite 85000000) (Finite 10000000) (to_double (833 / 100)) (Finite 5) u =
     Inr \<lparr>current_sec_f = Finite (17 / 2),
        baseline_sec_f = Finite (4689373111999529 / 562949953421312),
        target_sec_f = Finite (2227311490711421 / 281474976710656),
        reduction_pct_f = Finite (- (2296835809958953 / 1125899906842624)),
        is_compliant_f = False, energy_savings_mmbtu_f = Finite (- 1700000),
        co2_avoided_tonnes_f = Finite (- 119000)\<rparr>"
  by (simp add: calculate_sec_float_def float_ops float_eval
      to_double_pos [where e = "- 5"]
      to_double_pos [where e = "- 4"]
      to_double_pos [where e = "- 1"]
      to_double_pos [where e = 2]
      to_double_pos [where e = 3]
      to_double_neg [where e = "- 6"]
      to_double_neg [where e = "- 3"]
      to_double_neg [where e = 1]
      to_double_neg [where e = 16]
      to_double_neg [where e = 20])

lemma calculate_sec_float_third:
  "calculate_sec_float (Finite 1) (Finite 3) (Finite 8) (Finite 5) u =
     Inr \<lparr>current_sec_f = Finite (5998794703657501 / 18014398509481984),
        baseline_sec_f = Finite 8,
        target_sec_f = Finite (4278419646001971 / 562949953421312),
        reduction_pct_f = Finite (6743436754545541 / 70368744177664),
        is_compliant_f = True, energy_savings_mmbtu_f = Finite 23,
        co2_avoided_tonnes_f = Finite 2\<rparr>"
  by (simp add: calculate_sec_float_def float_ops float_eval
      to_double_pos [where e = "- 5"]
      to_double_pos [where e = "- 4"]
      to_double_pos [where e = "- 2"]
      to_double_pos [where e = "- 1"]
      to_double_pos [where e = 0]
      to_double_pos [where e = 1]
      to_double_pos [where e = 2]
      to_double_pos [where e = 4]
      to_double_pos [where e = 6])

lemma calculate_sec_float_equal_reals:
  "calculate_sec_float (Finite 79475) (Finite 10000) (Finite (85 / 10)) (Finite (65 / 10)) u =
     Inr \<lparr>current_sec_f = Finite (8947526559678333 / 1125899906842624),
        baseline_sec_f = Finite (17 / 2),
        target_sec_f = Finite (1118581557448147 / 140737488355328),
        reduction_pct_f = Finite (13 / 2),
        is_compliant_f = True, energy_savings_mmbtu_f = Finite 5525,
        co2_avoided_tonnes_f = Finite 387\<rparr>"
  by (simp add: calculate_sec_float_def float_ops float_eval
      to_double_pos [where e = "- 4"]
      to_double_pos [where e = "- 1"]
      to_double_pos [where e = 2]
      to_double_pos [where e = 8]
      to_double_pos [where e = 12])

lemma calculate_sec_float_decimal_tie:
  "calculate_sec_float (Finite 15) (Finite 2000) (Finite 8) (Finite 5) u =
     Inr \<lparr>current_sec_f = Finite (8070450532247929 / 1152921504606846976),
        baseline_sec_f = Finite 8,
        target_sec_f = Finite (4278419646001971 / 562949953421312),
        reduction_pct_f = Finite (3515270615395205 / 35184372088832),
        is_compliant_f = True, energy_savings_mmbtu_f = Finite 15985,
        co2_avoided_tonnes_f = Finite 1119\<rparr>
   \<and> to_double (7 / 1000) = Finite (8070450532247929 / 1152921504606846976)"
  by (simp add: calculate_sec_float_def float_ops float_eval
      to_double_pos [where e = "- 8"]
      to_double_pos [where e = "- 5"]
      to_double_pos [where e = "- 4"]
      to_double_pos [where e = "- 1"]
      to_double_pos [where e = 2]
      to_double_pos [where e = 6]
      to_double_pos [where e = 10]
      to_double_pos [where e = 13])

text \<open>
  Claim C1, as amended. For every float input with a positive throughput and a
  baseline other than zero, \<open>calculate_sec\<close> returns a result. Its \<open>current_sec\<close> is the
  float quotient total energy / throughput, which is the double nearest to the exact
  quotient of two finite arguments, rounded to three decimals by \<^verbatim>\<open>round\<close>. Its
  \<open>is_compliant\<close> flag is the strict comparison of that quotient, unrounded, with the
  computed target \<open>baseline * (1 - pct / 100)\<close>, so that a facility whose computed
  metric is the computed target is not compliant. For 85000000, 10000000 and the
  baseline 8.33 with the default reduction of 5 percent, \<open>current_sec\<close> is 8.5 and
  \<open>is_compliant\<close> is false.
\<close>

theorem calculate_sec_float_metric:
  "(float_lt (Finite 0) t \<and> b \<noteq> Finite 0 \<longrightarrow>
      (\<exists>r cur pct.
          float_truediv e t = Inr cur
          \<and> (\<forall>x y. e = Finite x \<and> t = Finite y \<longrightarrow> cur = to_double (x / y))
          \<and> float_truediv p (Finite 100) = Inr pct
          \<and> calculate_sec_float e t b p u = Inr r
          \<and> current_sec_f r = float_round cur 3
          \<and> is_compliant_f r = float_lt cur (float_mul b (float_sub (Finite 1) pct))
          \<and> (cur = float_mul b (float_sub (Finite 1) pct) \<longrightarrow> \<not> is_compliant_f r)))
   \<and> (\<exists>r. calculate_sec_float (Finite 85000000) (Finite 10000000) (to_double (833 / 100))
              (Finite 5) (to_double (85 / 100)) = Inr r
          \<and> current_sec_f r = Finite (85 / 10) \<and> \<not> is_compliant_f r)"
proof (intro conjI impI)
  assume pre: "float_lt (Finite 0) t \<and> b \<noteq> Finite 0"
  then have t: "t \<noteq> Finite 0" by (auto dest: float_lt_zero_nonzero)
  then obtain cur where cur: "float_truediv e t = Inr cur"
    using float_truediv_Inr by blast
  have fin: "cur = to_double (x / y)" if "e = Finite x \<and> t = Finite y" for x y
    using that t cur by (simp add: float_truediv_Finite)
  obtain pct where pct: "float_truediv p (Finite 100) = Inr pct"
    using float_truediv_Inr [of "Finite 100" p] by auto
  obtain q where q: "float_truediv (float_sub b cur) b = Inr q"
    using pre float_truediv_Inr [of b] by blast
  show "\<exists>r cur pct.
          float_truediv e t = Inr cur
          \<and> (\<forall>x y. e = Finite x \<and> t = Finite y \<longrightarrow> cur = to_double (x / y))
          \<and> float_truediv p (Finite 100) = Inr pct
          \<and> calculate_sec_float e t b p u = Inr r
          \<and> current_sec_f r = float_round cur 3
          \<and> is_compliant_f r = float_lt cur (float_mul b (float_sub (Finite 1) pct))
          \<and> (cur = float_mul b (float_sub (Finite 1) pct) \<longrightarrow> \<not> is_compliant_f r)"
    using cur pct fin calculate_sec_float_Inr [OF cur pct q, of u]
    by (auto simp add: float_lt_irrefl)
next
  show "\<exists>r. calculate_sec_float (Finite 85000000) (Finite 10000000) (to_double (833 / 100))
              (Finite 5) (to_double (85 / 100)) = Inr r
          \<and> current_sec_f r = Finite (85 / 10) \<and> \<not> is_compliant_f r"
    unfolding calculate_sec_float_scenario by simp
qed

theorem calculate_sec_float_metric_witness:
  "float_lt (Finite 0) (Finite 3) \<and> Finite 8 \<noteq> Finite 0
   \<and> (\<exists>r. calculate_sec_float (Finite 1) (Finite 3) (Finite 8) (Finite 5)
              (to_double (85 / 100)) = Inr r
          \<and> current_sec_f r = float_round (to_double (1 / 3)) 3
          \<and> current_sec_f r = Finite (5998794703657501 / 18014398509481984)
          \<and> is_compliant_f r)"
proof -
  have pre: "float_lt (Finite 0) (Finite 3) \<and> Finite 8 \<noteq> Finite 0"
    by (simp add: float_lt_def)
  from calculate_sec_float_metric [where e = "Finite 1" and t = "Finite 3" and b = "Finite 8"
      and p = "Finite 5" and u = "to_double (85 / 100)"] pre
  obtain r cur where r: "calculate_sec_float (Finite 1) (Finite 3) (Finite 8) (Finite 5)
        (to_double (85 / 100)) = Inr r"
    and cur: "cur = to_double (1 / 3)" and rnd: "current_sec_f r = float_round cur 3"
    by auto
  from r have "r = \<lparr>current_sec_f = Finite (5998794703657501 / 18014398509481984),
        baseline_sec_f = Finite 8,
        target_sec_f = Finite (4278419646001971 / 562949953421312),
        reduction_pct_f = Finite (6743436754545541 / 70368744177664),
        is_compliant_f = True, energy_savings_mmbtu_f = Finite 23,
        co2_avoided_tonnes_f = Finite 2\<rparr>"
    by (simp add: calculate_sec_float_third)
  with pre r cur rnd show ?thesis by simp
qed

text \<open>
  The claim as stated fails where the quotient has more than three decimals: for the
  energy 1 and the throughput 3 the quotient is the double nearest to 1/3, and the
  result holds the double nearest to 0.333.
\<close>

theorem calculate_sec_float_rounds_metric_counterexample:
  "float_lt (Finite 0) (Finite 3)
   \<and> float_truediv (Finite 1) (Finite 3) = Inr (Finite (6004799503160661 / 18014398509481984))
   \<and> calculate_sec_float (Finite 1) (Finite 3) (Finite 8) (Finite 5) (to_double (85 / 100)) =
       Inr \<lparr>current_sec_f = Finite (5998794703657501 / 18014398509481984),
          baseline_sec_f = Finite 8,
          target_sec_f = Finite (4278419646001971 / 562949953421312),
          reduction_pct_f = Finite (6743436754545541 / 70368744177664),
          is_compliant_f = True, energy_savings_mmbtu_f = Finite 23,
          co2_avoided_tonnes_f = Finite 2\<rparr>
   \<and> Finite (5998794703657501 / 18014398509481984)
       \<noteq> Finite (6004799503160661 / 18014398509481984)"
  by (simp add: calculate_sec_float_third float_truediv_def float_lt_def float_eval
      to_double_pos [where e = "- 2"])

text \<open>
  Claim C2, as amended. \<open>calculate_sec\<close> checks none of its arguments. It raises
  ZeroDivisionError when the throughput is zero or the baseline is zero, and returns a
  result for every other input, a negative throughput included.
\<close>

theorem calculate_sec_failure:
  "(t = 0 \<or> b = 0 \<longrightarrow> calculate_sec e t b p u = Inl ZeroDivisionError)
   \<and> (t \<noteq> 0 \<and> b \<noteq> 0 \<longrightarrow> (\<exists>r. calculate_sec e t b p u = Inr r))"
  by (auto simp add: calculate_sec_Inr calculate_sec_Inl)

theorem calculate_sec_failure_witness:
  "calculate_sec 100 0 8 5 (85 / 100) = Inl ZeroDivisionError
   \<and> calculate_sec 100 10 0 5 (85 / 100) = Inl ZeroDivisionError
   \<and> (\<exists>r. calculate_sec 100 (- 10) 8 5 (85 / 100) = Inr r)"
  using calculate_sec_failure [where t = 0 and b = 8 and e = 100 and p = 5 and u = "85 / 100"]
    calculate_sec_failure [where t = 10 and b = 0 and e = 100 and p = 5 and u = "85 / 100"]
    calculate_sec_failure [where t = "- 10" and b = 8 and e = 100 and p = 5 and u = "85 / 100"]
  by simp

text \<open>
  The claim as stated fails at a negative throughput: the call returns a result, and a
  compliant one.
\<close>

theorem calculate_sec_negative_throughput_counterexample:
  "(- 10 :: real) \<le> 0
   \<and> calculate_sec 100 (- 10) 8 5 (85 / 100) =
       Inr \<lparr>current_sec = - 10, baseline_sec = 8, target_sec = 76 / 10,
            reduction_pct = 225, is_compliant = True,
            energy_savings_mmbtu = - 180, co2_avoided_tonnes = - 13\<rparr>"
  by (simp add: calculate_sec_def py_truediv_def py_round_def round_half_even_def
      CO2_FACTOR_def Let_def)

text \<open>
  Claim C3, as amended. \<open>calculate_escerts\<close> checks none of its arguments. It raises
  ZeroDivisionError when the exchange rate is zero, and returns a position for every
  other input, whatever the signs of the capacity and of the rate.
\<close>

theorem calculate_escerts_failure:
  "(rate = 0 \<longrightarrow> calculate_escerts c t cap price rate u = Inl ZeroDivisionError)
   \<and> (rate \<noteq> 0 \<longrightarrow> (\<exists>r. calculate_escerts c t cap price rate u = Inr r))"
  by (auto simp add: calculate_escerts_Inr calculate_escerts_Inl)

theorem calculate_escerts_failure_witness:
  "calculate_escerts (65 / 10) (75 / 10) 10 4000 0 (85 / 100) = Inl ZeroDivisionError
   \<and> (\<exists>r. calculate_escerts (65 / 10) (75 / 10) (- 10) 4000 (- 83) (85 / 100) = Inr r)"
  using calculate_escerts_failure [where rate = 0 and c = "65 / 10" and t = "75 / 10"
      and cap = 10 and price = 4000 and u = "85 / 100"]
    calculate_escerts_failure [where rate = "- 83" and c = "65 / 10" and t = "75 / 10"
      and cap = "- 10" and price = 4000 and u = "85 / 100"]
  by simp

text \<open>
  The claim as stated fails at a negative capacity: the call returns a position, a
  generator with a negative quantity.
\<close>

theorem calculate_escerts_negative_capacity_counterexample:
  "(- 10 :: real) \<le> 0
   \<and> calculate_escerts (65 / 10) (75 / 10) (- 10) 4000 83 (85 / 100) =
       Inr \<lparr>is_generator = True, escerts_toe = - 203019, value_inr = - 812076049,
            value_usd = - 9784049, breakeven_sec = None\<rparr>"
  by (simp add: calculate_escerts_def py_truediv_def py_round_def round_half_even_def
      MMBTU_TO_TOE_def Let_def)

text \<open>
  Claim C4, as amended. Whenever \<open>calculate_escerts\<close> returns a position,
  \<open>is_generator\<close> is the strict comparison target - current > 0, so it is false when the
  overachievement is exactly 0; and \<open>breakeven_sec\<close> is populated, with the target,
  exactly when the overachievement is negative, that is when \<open>is_generator\<close> is false
  and the current metric is not the target.
\<close>

theorem calculate_escerts_position:
  assumes "calculate_escerts c t cap price rate u = Inr r"
  shows "is_generator r = (0 < t - c)
     \<and> (t - c = 0 \<longrightarrow> \<not> is_generator r)
     \<and> breakeven_sec r = (if t - c < 0 then Some t else None)
     \<and> ((\<exists>x. breakeven_sec r = Some x) \<longleftrightarrow> \<not> is_generator r \<and> t \<noteq> c)"
proof -
  have "rate \<noteq> 0"
    using assms by (auto simp add: calculate_escerts_Inl)
  from calculate_escerts_Inr [OF this, of c t cap price u] assms
  have "r = \<lparr>is_generator = (0 < t - c),
          escerts_toe = py_round ((t - c) * (cap * 1000000 * u) / MMBTU_TO_TOE) 0,
          value_inr = py_round ((t - c) * (cap * 1000000 * u) / MMBTU_TO_TOE * price) 0,
          value_usd = py_round ((t - c) * (cap * 1000000 * u) / MMBTU_TO_TOE * price / rate) 0,
          breakeven_sec = (if t - c < 0 then Some t else None)\<rparr>"
    by simp
  then show ?thesis by auto
qed

theorem calculate_escerts_position_witness:
  "\<exists>r. calculate_escerts 8 (75 / 10) 10 4000 83 (85 / 100) = Inr r
      \<and> \<not> is_generator r \<and> breakeven_sec r = Some (75 / 10)"
proof -
  have e: "calculate_escerts 8 (75 / 10) 10 4000 83 (85 / 100) =
       Inr \<lparr>is_generator = False, escerts_toe = - 101510, value_inr = - 406038024,
            value_usd = - 4892024, breakeven_sec = Some (75 / 10)\<rparr>"
    by (simp add: calculate_escerts_def py_truediv_def py_round_def round_half_even_def
      MMBTU_TO_TOE_def Let_def)
  from calculate_escerts_position [OF e] e show ?thesis by simp
qed

text \<open>
  The claim as stated fails at an overachievement of exactly 0: \<open>is_generator\<close> is
  false and \<open>breakeven_sec\<close> is not populated.
\<close>

theorem calculate_escerts_at_target_counterexample:
  "calculate_escerts (75 / 10) (75 / 10) 10 4000 83 (85 / 100) =
     Inr \<lparr>is_generator = False, escerts_toe = 0, value_inr = 0, value_usd = 0,
          breakeven_sec = None\<rparr>"
  by (simp add: calculate_escerts_def py_truediv_def py_round_def round_half_even_def
      MMBTU_TO_TOE_def Let_def)

section \<open>The portfolio\<close>

lemma calculate_escerts_row:
  "calculate_escerts (row_current_sec row) (row_target_sec row) (row_capacity_mmtpa row)
     price 83 (85 / 100) = Inr (row_result price row)"
  by (simp add: row_result_def calculate_escerts_Inr)

lemma calculate_escerts_row_norm:
  "calculate_escerts (row_current_sec row) (row_target_sec row) (row_capacity_mmtpa row)
     price 83 (17 / 20) = Inr (row_result price row)"
  using calculate_escerts_row [of row price] by simp

text \<open>
  The loop never raises, since the exchange rate of its calls is the constant 83: it
  adds every row to one of the two totals and appends one position per row.
\<close>

lemma portfolio_loop_Inr:
  "portfolio_loop price rows (g, r, ps) =
     Inr (g + sum_list (map (row_generated price) rows),
          r + sum_list (map (row_required price) rows),
          ps @ map (row_position price) rows)"
proof (induction rows arbitrary: g r ps)
  case Nil
  show ?case by simp
next
  case (Cons row rows)
  show ?case
    by (simp add: calculate_escerts_row_norm Cons.IH row_generated_def row_required_def
        row_position_def)
qed

lemma calculate_portfolio_escerts_Inr:
  "calculate_portfolio_escerts rows price =
     Inr \<lparr>total_generated_toe = sum_list (map (row_generated price) rows),
          total_required_toe = sum_list (map (row_required price) rows),
          net_balance_toe =
            sum_list (map (row_generated price) rows) - sum_list (map (row_required price) rows),
          market_value_inr_cr =
            \<bar>sum_list (map (row_generated price) rows) - sum_list (map (row_required price) rows)\<bar>
              * price / 10000000,
          is_surplus =
            (0 < sum_list (map (row_generated price) rows) - sum_list (map (row_required price) rows)),
          positions = map (row_position price) rows\<rparr>"
  by (simp add: calculate_portfolio_escerts_def portfolio_loop_Inr Let_def)

text \<open>
  Claim C5. For every facility collection and every price,
  \<open>calculate_portfolio_escerts\<close> returns a summary whose net balance is total generated
  minus total required, whose market value is |net balance| * price / 10000000, whose
  surplus flag is net balance > 0, and whose position list has one entry per facility,
  in the order of the input: the entry of each facility is the position computed for
  that facility.
\<close>

theorem calculate_portfolio_escerts_summary:
  "\<exists>s. calculate_portfolio_escerts rows price = Inr s
      \<and> net_balance_toe s = total_generated_toe s - total_required_toe s
      \<and> market_value_inr_cr s = \<bar>net_balance_toe s\<bar> * price / 10000000
      \<and> is_surplus s = (0 < net_balance_toe s)
      \<and> length (positions s) = length rows
      \<and> map pos_refinery (positions s) = map row_refinery rows
      \<and> positions s = map (row_position price) rows"
  by (simp add: calculate_portfolio_escerts_Inr row_position_def comp_def)

text \<open>
  Claim C9, as amended. \<open>calculate_portfolio_escerts\<close> checks no record and has no
  error entries. A facility that violates the calculators' preconditions does not abort
  the batch, and it is treated as any other: for every facility \<open>bad\<close> at any place of
  a collection, the batch returns a summary; the positions of the other facilities are
  those of the batch without \<open>bad\<close>, the entry at its place is an ordinary position, and
  its quantity is added to the totals of the others.
\<close>

theorem calculate_portfolio_escerts_no_error_entry:
  "\<exists>s s0. calculate_portfolio_escerts (pre @ bad # post) price = Inr s
      \<and> calculate_portfolio_escerts (pre @ post) price = Inr s0
      \<and> positions s =
          take (length pre) (positions s0) @ row_position price bad
            # drop (length pre) (positions s0)
      \<and> total_generated_toe s = total_generated_toe s0 + row_generated price bad
      \<and> total_required_toe s = total_required_toe s0 + row_required price bad"
  by (simp add: calculate_portfolio_escerts_Inr)

text \<open>
  The claim as stated fails on a batch of a well-formed facility and one with a
  negative capacity: the summary holds an ordinary position for the second, a
  generator of a negative quantity, which is subtracted from the total generated
  (211140 - 203019 = 8121), and nothing in the summary marks it as an error.
\<close>

theorem calculate_portfolio_escerts_malformed_counterexample:
  "calculate_portfolio_escerts
       [\<lparr>row_refinery = ''IOCL Mathura'', row_capacity_mmtpa = 8, row_pat_cycle_entry = 1,
            row_baseline_sec = 85 / 10, row_current_sec = 68 / 10, row_target_sec = 81 / 10\<rparr>,
        \<lparr>row_refinery = ''Bad'', row_capacity_mmtpa = - 10, row_pat_cycle_entry = 1,
            row_baseline_sec = 8, row_current_sec = 65 / 10, row_target_sec = 75 / 10\<rparr>] 4000 =
     Inr \<lparr>total_generated_toe = 8121, total_required_toe = 0, net_balance_toe = 8121,
        market_value_inr_cr = 32484 / 10000, is_surplus = True,
        positions =
          [\<lparr>pos_refinery = ''IOCL Mathura'', pos_escerts_toe = 211140,
              pos_value_inr_cr = 84455909 / 1000000\<rparr>,
           \<lparr>pos_refinery = ''Bad'', pos_escerts_toe = - 203019,
              pos_value_inr_cr = - 812076049 / 10000000\<rparr>]\<rparr>"
  by (simp add: calculate_portfolio_escerts_def calculate_escerts_def py_truediv_def
      py_round_def round_half_even_def MMBTU_TO_TOE_def Let_def)

section \<open>The effect model\<close>

text \<open>
  Claim C6. \<open>predict_sec_reduction\<close> is a step function of the cohort entry with its
  one breakpoint at 2: two entries on the same side of it give the same prediction,
  and an early and a late entry differ by (|early effect| - |late effect|) * 100. The
  size penalty is gated by the strict test capacity > 10: two capacities on the same
  side give the same prediction (10 itself is below), and a capacity above the
  threshold subtracts \<open>large_refinery_adj * 100\<close>. For the coefficients of \<open>MODEL\<close>, the
  predictions at (1, 5) and (2, 5) are equal and differ from the one at (3, 5), and the
  prediction at (1, 15) is less than the one at (1, 5).
\<close>

theorem predict_sec_reduction_two_tier:
  "(a \<le> 2 \<and> a' \<le> 2 \<longrightarrow> predict_sec_reduction a cap m = predict_sec_reduction a' cap m)
   \<and> (2 < a \<and> 2 < a' \<longrightarrow> predict_sec_reduction a cap m = predict_sec_reduction a' cap m)
   \<and> (a \<le> 2 \<and> 2 < a' \<longrightarrow>
        predict_sec_reduction a cap m - predict_sec_reduction a' cap m =
          (\<bar>early_entrant_effect m\<bar> - \<bar>late_entrant_effect m\<bar>) * 100)
   \<and> (x \<le> 10 \<and> x' \<le> 10 \<longrightarrow> predict_sec_reduction c x m = predict_sec_reduction c x' m)
   \<and> (10 < x \<and> 10 < x' \<longrightarrow> predict_sec_reduction c x m = predict_sec_reduction c x' m)
   \<and> (x \<le> 10 \<and> 10 < x' \<longrightarrow>
        predict_sec_reduction c x' m = predict_sec_reduction c x m - large_refinery_adj m * 100)
   \<and> predict_sec_reduction 1 5 MODEL = predict_sec_reduction 2 5 MODEL
   \<and> predict_sec_reduction 2 5 MODEL \<noteq> predict_sec_reduction 3 5 MODEL
   \<and> predict_sec_reduction 1 15 MODEL < predict_sec_reduction 1 5 MODEL"
  by (simp add: predict_sec_reduction_def MODEL_def algebra_simps)

theorem predict_sec_reduction_two_tier_witness:
  "predict_sec_reduction 1 5 MODEL = predict_sec_reduction 2 5 MODEL
   \<and> predict_sec_reduction 3 5 MODEL = predict_sec_reduction 7 5 MODEL
   \<and> predict_sec_reduction 2 5 MODEL - predict_sec_reduction 3 5 MODEL = 496 / 10
   \<and> predict_sec_reduction 1 5 MODEL = predict_sec_reduction 1 10 MODEL
   \<and> predict_sec_reduction 1 15 MODEL = predict_sec_reduction 1 11 MODEL
   \<and> predict_sec_reduction 1 15 MODEL = predict_sec_reduction 1 10 MODEL - 85 / 10"
  using predict_sec_reduction_two_tier [where a = 1 and a' = 2 and cap = 5 and m = MODEL
      and x = 5 and x' = 10 and c = 1]
    predict_sec_reduction_two_tier [where a = 3 and a' = 7 and cap = 5 and m = MODEL
      and x = 15 and x' = 11 and c = 1]
    predict_sec_reduction_two_tier [where a = 2 and a' = 3 and cap = 5 and m = MODEL
      and x = 10 and x' = 15 and c = 1]
  by (simp add: MODEL_def)

text \<open>
  Claim C10. With the coefficients of \<open>MODEL\<close>, every cohort entry above 2 with a
  capacity above 10 gets the base effect 2.2 minus the size penalty 8.5: the predicted
  reduction is -6.3, a negative number.
\<close>

theorem predict_sec_reduction_negative:
  assumes "2 < c" and "10 < cap"
  shows "predict_sec_reduction c cap MODEL = 22 / 10 - 85 / 10
     \<and> predict_sec_reduction c cap MODEL = - 63 / 10
     \<and> predict_sec_reduction c cap MODEL < 0"
  using assms by (simp add: predict_sec_reduction_def MODEL_def)

theorem predict_sec_reduction_negative_witness:
  "(2::int) < 3 \<and> (10::real) < 15 \<and> predict_sec_reduction 3 15 MODEL = - 63 / 10
    \<and> predict_sec_reduction 3 15 MODEL < 0"
  using predict_sec_reduction_negative [of 3 15] by simp

section \<open>The simulation\<close>

lemma monte_carlo_compliance_reseeds:
  "monte_carlo_compliance np b t p n s (Some seed) g =
   monte_carlo_compliance np b t p n s (Some seed) g'"
  by (simp add: monte_carlo_compliance_def)

text \<open>
  Claim C7. A call of \<open>monte_carlo_compliance\<close> with a seed does not depend on the
  state the global generator is in when the call is made: two calls with the same
  arguments and the same seed return the same compliance probability, the same
  interval bounds and the same sample, and leave the generator in the same state.
\<close>

theorem monte_carlo_compliance_seeded_deterministic:
  "monte_carlo_compliance np baseline tgt predicted n std_err (Some seed) g =
   monte_carlo_compliance np baseline tgt predicted n std_err (Some seed) g'"
  by (simp add: monte_carlo_compliance_def)

text \<open>
  Without a seed the call reads the state it finds: on the stand-in generator, the same
  arguments give different samples from the states 0 and 1.
\<close>

lemma monte_carlo_compliance_unseeded_reads_state:
  "monte_carlo_compliance stub_numpy 8 (76 / 10) 5 1 (171 / 10) None 0
   \<noteq> monte_carlo_compliance stub_numpy 8 (76 / 10) 5 1 (171 / 10) None 1"
  by (simp add: monte_carlo_compliance_def stub_numpy_def)

section \<open>The batch forecast\<close>

lemma batch_loop_reseeds:
  "batch_loop np h (row # rows) results g = batch_loop np h (row # rows) results g'"
  by (simp add: Let_def monte_carlo_compliance_reseeds [of np _ _ _ _ _ _ g g'])

text \<open>
  Within one process, where the hash function is fixed, the forecasts of a batch do
  not depend on the state of the generator: a repeated run returns the same list.
\<close>

lemma batch_compliance_forecast_same_process:
  "map_sum id fst (batch_compliance_forecast np h rows g) =
   map_sum id fst (batch_compliance_forecast np h rows g')"
proof (cases rows)
  case Nil
  then show ?thesis by (simp add: batch_compliance_forecast_def)
next
  case (Cons row rest)
  then show ?thesis
    unfolding batch_compliance_forecast_def
    using batch_loop_reseeds [of np h row rest "[]" g g'] by simp
qed

lemma stub_numpy_draws:
  "monte_carlo_compliance stub_numpy b t p 5000 s (Some seed) g =
     (if 0 \<le> seed \<and> seed < 2 ^ 32 then
        if s < 0 then Inl ValueError
        else Inr ((if b * (1 - (p + of_int seed) / 100) < t then 100 else 0,
                   b * (1 - (p + of_int seed) / 100),
                   b * (1 - (p + of_int seed) / 100),
                   replicate 5000 (b * (1 - (p + of_int seed) / 100))), seed + 5000)
      else Inl ValueError)"
  by (simp add: monte_carlo_compliance_def stub_numpy_def Let_def)

text \<open>
  Claim C8. The seed of a facility is the hash of its identifier in the running
  process, not a function of the identifier alone: the one-row batch of IOCL Panipat,
  on the stand-in generator from the same state, gets the interval bounds 4.65 in a
  process where the identifier hashes to 0 and 4.57 in one where it hashes to 1.
\<close>

theorem batch_compliance_forecast_depends_on_str_hash:
  "map_sum id fst (batch_compliance_forecast stub_numpy (\<lambda>name. 0) [IOCL_Panipat] 0) =
     Inr [\<lparr>fc_refinery = ''IOCL Panipat'', fc_baseline_sec = 82 / 10, fc_target_sec = 78 / 10,
           fc_predicted_sec = 465 / 100, fc_predicted_reduction_pct = 433 / 10,
           fc_compliance_probability = 100, fc_ci_lower = 465 / 100, fc_ci_upper = 465 / 100,
           fc_status = ''High''\<rparr>]
   \<and> map_sum id fst (batch_compliance_forecast stub_numpy (\<lambda>name. 1) [IOCL_Panipat] 0) =
     Inr [\<lparr>fc_refinery = ''IOCL Panipat'', fc_baseline_sec = 82 / 10, fc_target_sec = 78 / 10,
           fc_predicted_sec = 465 / 100, fc_predicted_reduction_pct = 433 / 10,
           fc_compliance_probability = 100, fc_ci_lower = 457 / 100, fc_ci_upper = 457 / 100,
           fc_status = ''High''\<rparr>]"
  by (simp add: batch_compliance_forecast_def stub_numpy_draws IOCL_Panipat_def
      predict_sec_reduction_def MODEL_def py_round_def round_half_even_def Let_def)

end
